theory Spec2Isabelle
  imports Complex_Main "HOL-Library.AList"
begin

section \<open>Data model (types.ts)\<close>

text \<open>
  The closed enumeration of spending categories, in the order of the \<^verbatim>\<open>Categories\<close>
  array.
\<close>

datatype Category =
  Bills | Entertainment | Food | Shopping | Fuel | Groceries | Health | Office
  | Travel | Transfer | Other

definition Categories :: "Category list" where
  "Categories =
     [Bills, Entertainment, Food, Shopping, Fuel, Groceries, Health, Office,
      Travel, Transfer, Other]"

text \<open>
  A JavaScript \<^verbatim>\<open>number\<close>. Finite values are modelled as exact reals (rounding to
  binary64 and the sign of zero are not modelled); the three non-finite values are kept,
  because \<^verbatim>\<open>parseFloat\<close> and division can produce them and every comparison with
  \<^verbatim>\<open>NaN\<close> is false.
\<close>

datatype number = Num real | NaN | PosInf | NegInf

text \<open>\<^verbatim>\<open>x > 0\<close>, \<^verbatim>\<open>x <= 0\<close> and \<^verbatim>\<open>x >= t\<close> on numbers.\<close>

fun gt0 :: "number \<Rightarrow> bool" where
  "gt0 (Num r) = (0 < r)"
| "gt0 NaN = False"
| "gt0 PosInf = True"
| "gt0 NegInf = False"

fun le0 :: "number \<Rightarrow> bool" where
  "le0 (Num r) = (r \<le> 0)"
| "le0 NaN = False"
| "le0 PosInf = False"
| "le0 NegInf = True"

fun ge_num :: "number \<Rightarrow> real \<Rightarrow> bool" where
  "ge_num (Num r) t = (t \<le> r)"
| "ge_num NaN t = False"
| "ge_num PosInf t = True"
| "ge_num NegInf t = False"

text \<open>
  \<^verbatim>\<open>a / b\<close> for a finite dividend: division by zero is not an error in JavaScript, it
  yields \<^verbatim>\<open>NaN\<close> (for \<^verbatim>\<open>0 / 0\<close>) or an infinity.
\<close>

fun div_num :: "real \<Rightarrow> number \<Rightarrow> number" where
  "div_num a (Num b) =
     (if b = 0 then (if a = 0 then NaN else if 0 < a then PosInf else NegInf)
      else Num (a / b))"
| "div_num a NaN = NaN"
| "div_num a PosInf = Num 0"
| "div_num a NegInf = Num 0"

text \<open>\<^verbatim>\<open>x * k\<close> for a finite positive constant \<open>k\<close> (here always 100).\<close>

fun times_num :: "number \<Rightarrow> real \<Rightarrow> number" where
  "times_num (Num r) k = Num (r * k)"
| "times_num NaN k = NaN"
| "times_num PosInf k = PosInf"
| "times_num NegInf k = NegInf"

text \<open>
  \<^verbatim>\<open>Transaction\<close> and \<^verbatim>\<open>Card\<close>. Both interfaces have a field \<^verbatim>\<open>id\<close>; the record
  fields are \<open>id_tx\<close> and \<open>id_card\<close>. A transaction's amount is written by the
  transaction editor behind an \<^verbatim>\<open>isNaN\<close> guard and by the SMS path from a JSON number,
  so it is never \<^verbatim>\<open>NaN\<close>; it is modelled as a finite value. A card's limit is whatever
  \<^verbatim>\<open>parseFloat\<close> returned.
\<close>

record Transaction =
  id_tx :: string
  cardId :: string
  merchant :: string
  amount :: real
  date :: string
  category :: Category

record Card =
  id_card :: string
  name :: string
  last4 :: string
  limit :: number
  gradient :: string

text \<open>\<^verbatim>\<open>ParsedSmsData\<close>; the category is optional.\<close>

record ParsedSmsData =
  sms_merchant :: string
  sms_amount :: real
  cardLast4 :: string
  sms_category :: "Category option"

section \<open>Built-ins of the platform\<close>

text \<open>
  Strings are lists of 8-bit characters. \<^verbatim>\<open>String.prototype.trim\<close> and
  \<^verbatim>\<open>String.prototype.toLowerCase\<close> are Unicode functions; they are parameters of the
  model (fields of the environment below), so that what is proved of a handler holds for
  the built-ins as they are. The two functions here are their restrictions to ASCII text
  (white space TAB, LF, VT, FF, CR and SPACE; the letters A to Z), used only to evaluate
  the handlers on concrete ASCII inputs.
\<close>

definition isWhiteSpace :: "char \<Rightarrow> bool" where
  "isWhiteSpace c = (c \<in> set [CHR 0x09, CHR 0x0A, CHR 0x0B, CHR 0x0C, CHR 0x0D, CHR '' ''])"

definition asciiTrim :: "string \<Rightarrow> string" where
  "asciiTrim s = rev (dropWhile isWhiteSpace (rev (dropWhile isWhiteSpace s)))"

definition lowerChar :: "char \<Rightarrow> char" where
  "lowerChar c =
     (case map_of (zip ''ABCDEFGHIJKLMNOPQRSTUVWXYZ'' ''abcdefghijklmnopqrstuvwxyz'') c of
        Some l \<Rightarrow> l
      | None \<Rightarrow> c)"

definition asciiToLowerCase :: "string \<Rightarrow> string" where
  "asciiToLowerCase s = map lowerChar s"

text \<open>The regular-expression class \<^verbatim>\<open>\d\<close>: the ten ASCII digits.\<close>

definition isDigit :: "char \<Rightarrow> bool" where
  "isDigit c = (c \<in> set ''0123456789'')"

text \<open>
  The decimal rendering of a non-negative integer, as a template literal inserts it
  (\<^verbatim>\<open>`card-${Date.now()}`\<close>, the year, month and threshold of a notification key).
\<close>

definition digitChar :: "nat \<Rightarrow> char" where
  "digitChar d = ''0123456789'' ! d"

fun showNat :: "nat \<Rightarrow> string" where
  "showNat n = (if n < 10 then [digitChar n] else showNat (n div 10) @ [digitChar (n mod 10)])"

declare showNat.simps [simp del]

section \<open>Card list (App.tsx)\<close>

text \<open>
  \<^verbatim>\<open>Array.prototype.findIndex\<close>: the index of the first element that satisfies the
  predicate, or -1.
\<close>

fun findIndex :: "('a \<Rightarrow> bool) \<Rightarrow> 'a list \<Rightarrow> int" where
  "findIndex p [] = -1"
| "findIndex p (x # xs) =
     (if p x then 0 else (let i = findIndex p xs in if i > -1 then i + 1 else -1))"

text \<open>
  \<^verbatim>\<open>handleSaveCard\<close>: replace the card at the index found, or append. The function
  maps the current card list to the list given to \<^verbatim>\<open>setCards\<close>.
\<close>

definition handleSaveCard :: "Card list \<Rightarrow> Card \<Rightarrow> Card list" where
  "handleSaveCard cards newCard =
     (let cardIndex = findIndex (\<lambda>c. id_card c = id_card newCard) cards in
      if cardIndex > -1 then cards[nat cardIndex := newCard] else cards @ [newCard])"

section \<open>The environment\<close>

text \<open>
  What the handlers read from the platform at the moment they run: the clock
  (\<^verbatim>\<open>new Date().getMonth()\<close>, \<^verbatim>\<open>new Date().getFullYear()\<close>, \<^verbatim>\<open>Date.now()\<close>,
  \<^verbatim>\<open>new Date().toISOString()\<close>), the calendar fields of a stored date string
  (\<^verbatim>\<open>new Date(s).getMonth()\<close> and \<^verbatim>\<open>new Date(s).getFullYear()\<close>, in the local time
  zone; \<open>None\<close> is the \<^verbatim>\<open>NaN\<close> of an invalid date, which equals no month and no
  year), \<^verbatim>\<open>parseFloat\<close>, \<^verbatim>\<open>Math.random()\<close>, \<^verbatim>\<open>toFixed(1)\<close> and
  \<^verbatim>\<open>toFixed(2)\<close>, and the string functions \<^verbatim>\<open>trim\<close> and \<^verbatim>\<open>toLowerCase\<close>. They
  are parameters of the model: a theorem that quantifies over the environment holds for
  every behaviour of these built-ins.
\<close>

record Env =
  currentMonth :: nat
  currentYear :: int
  getMonth :: "string \<Rightarrow> nat option"
  getFullYear :: "string \<Rightarrow> int option"
  dateNow :: nat
  toISOString :: string
  parseFloat :: "string \<Rightarrow> number"
  random :: real
  toFixed1 :: "number \<Rightarrow> string"
  toFixed2 :: "real \<Rightarrow> string"
  trim :: "string \<Rightarrow> string"
  toLowerCase :: "string \<Rightarrow> string"

definition showInt :: "int \<Rightarrow> string" where
  "showInt i = (if i < 0 then CHR ''-'' # showNat (nat (- i)) else showNat (nat i))"

text \<open>
  The month filter of both summaries:
  \<^verbatim>\<open>txDate.getMonth() === currentMonth && txDate.getFullYear() === currentYear\<close>.
\<close>

definition inCurrentMonth :: "Env \<Rightarrow> Transaction \<Rightarrow> bool" where
  "inCurrentMonth env tx =
     (getMonth env (date tx) = Some (currentMonth env) \<and>
      getFullYear env (date tx) = Some (currentYear env))"

section \<open>Aggregator (App.tsx)\<close>

text \<open>
  A \<^verbatim>\<open>Map\<close> is an association list in insertion order: \<^verbatim>\<open>set\<close> overwrites the
  value of a key in place or appends a new entry (\<^const>\<open>AList.update\<close>), \<^verbatim>\<open>get\<close> is
  \<^const>\<open>map_of\<close>. \<^verbatim>\<open>m.get(k) || 0\<close> is 0 for a missing key.
\<close>

definition orZero :: "real option \<Rightarrow> real" where
  "orZero v = (case v of None \<Rightarrow> 0 | Some x \<Rightarrow> x)"

text \<open>\<^verbatim>\<open>cardExpenses\<close>: every card starts at 0, then each transaction of the month adds
  its amount to the entry of its card id.\<close>

definition expenseStep :: "Env \<Rightarrow> (string \<times> real) list \<Rightarrow> Transaction \<Rightarrow> (string \<times> real) list" where
  "expenseStep env expenses tx =
     (if inCurrentMonth env tx
      then (let currentTotal = orZero (map_of expenses (cardId tx)) in
            AList.update (cardId tx) (currentTotal + amount tx) expenses)
      else expenses)"

definition cardExpenses :: "Env \<Rightarrow> Card list \<Rightarrow> Transaction list \<Rightarrow> (string \<times> real) list" where
  "cardExpenses env cards transactions =
     (let expenses = foldl (\<lambda>m c. AList.update (id_card c) 0 m) [] cards in
      foldl (expenseStep env) expenses transactions)"

text \<open>The colour column of \<^verbatim>\<open>CATEGORY_CONFIG\<close>.\<close>

fun categoryColor :: "Category \<Rightarrow> string" where
  "categoryColor Bills = ''bg-red-500''"
| "categoryColor Entertainment = ''bg-pink-500''"
| "categoryColor Food = ''bg-yellow-500''"
| "categoryColor Shopping = ''bg-purple-500''"
| "categoryColor Fuel = ''bg-orange-500''"
| "categoryColor Groceries = ''bg-green-500''"
| "categoryColor Health = ''bg-blue-500''"
| "categoryColor Office = ''bg-indigo-500''"
| "categoryColor Travel = ''bg-teal-500''"
| "categoryColor Transfer = ''bg-gray-500''"
| "categoryColor Other = ''bg-gray-400''"

record PieEntry =
  pie_name :: Category
  pie_value :: real
  percentage :: real
  color :: string

text \<open>
  \<^verbatim>\<open>monthlySummary\<close>. The loop over the transactions updates the category map and the
  running total together; the entries with a positive amount become the pie data, sorted
  by descending value (\<^verbatim>\<open>Array.prototype.sort\<close> is stable, as \<^const>\<open>sort_key\<close> is).
  The fields \<^verbatim>\<open>name\<close> and \<^verbatim>\<open>value\<close> of an entry are \<open>pie_name\<close> and
  \<open>pie_value\<close>, the variable \<^verbatim>\<open>total\<close> is \<open>totalSum\<close>, and the fields
  \<^verbatim>\<open>pieData\<close> and \<^verbatim>\<open>total\<close> of the result are read with \<open>pieData\<close> and
  \<open>monthTotal\<close>. The sums are exact: the rounding of the floating-point additions, and
  with it the cancellation between large amounts of opposite sign, is not modelled.
\<close>

definition summaryStep ::
  "Env \<Rightarrow> (Category \<times> real) list \<times> real \<Rightarrow> Transaction \<Rightarrow> (Category \<times> real) list \<times> real" where
  "summaryStep env st tx =
     (case st of (summary, totalSum) \<Rightarrow>
        if inCurrentMonth env tx
        then (let currentTotal = orZero (map_of summary (category tx)) in
              (AList.update (category tx) (currentTotal + amount tx) summary,
               totalSum + amount tx))
        else (summary, totalSum))"

definition pieEntry :: "real \<Rightarrow> Category \<times> real \<Rightarrow> PieEntry" where
  "pieEntry totalSum e =
     (case e of (cat, amt) \<Rightarrow>
        \<lparr>pie_name = cat, pie_value = amt,
         percentage = (if totalSum > 0 then (amt / totalSum) * 100 else 0),
         color = categoryColor cat\<rparr>)"

definition monthlySummary :: "Env \<Rightarrow> Transaction list \<Rightarrow> PieEntry list \<times> real" where
  "monthlySummary env transactions =
     (let summary0 = foldl (\<lambda>m cat. AList.update cat 0 m) [] Categories in
      case foldl (summaryStep env) (summary0, 0) transactions of
        (summary, totalSum) \<Rightarrow>
          (sort_key (\<lambda>e. - pie_value e)
             (map (pieEntry totalSum) (filter (\<lambda>e. snd e > 0) summary)),
           totalSum))"

definition pieData :: "PieEntry list \<times> real \<Rightarrow> PieEntry list" where
  "pieData r = fst r"

definition monthTotal :: "PieEntry list \<times> real \<Rightarrow> real" where
  "monthTotal r = snd r"

section \<open>Transactions (App.tsx)\<close>

text \<open>
  The part of the application state that the transaction and SMS handlers read and
  write; the state variables \<^verbatim>\<open>cards\<close> and \<^verbatim>\<open>transactions\<close> are the fields
  \<open>cards_of\<close> and \<open>transactions_of\<close>. \<^verbatim>\<open>showTemporaryMessage\<close> sets a message and
  clears it three seconds later; the model keeps the message that was set.
\<close>

record App =
  cards_of :: "Card list"
  transactions_of :: "Transaction list"
  smsInput :: string
  isLoading :: bool
  error :: "string option"
  successMessage :: "string option"

text \<open>
  Modelled from the spec: the setter that the hook \<^verbatim>\<open>useLocalStorage\<close> returns
  (hooks/useLocalStorage is not among the sources). The spec's Store "holds the list of
  Cards, list of Transactions, and a record of already-sent notification keys", and
  "each mutation rewrites the full corresponding record". A call with an updater,
  \<^verbatim>\<open>setX(prev => f(prev))\<close>, is taken to replace the stored value \<open>v\<close> by \<open>f v\<close>, each
  call seeing the value the call before it left, as the setter of \<^verbatim>\<open>useState\<close> does.
\<close>

definition setStored :: "('a \<Rightarrow> 'a) \<Rightarrow> 'a \<Rightarrow> 'a" where
  "setStored f v = f v"

text \<open>
  The argument of \<^verbatim>\<open>handleSaveTransaction\<close>, of type
  \<^verbatim>\<open>Partial<Transaction> & { cardId; merchant; amount; category }\<close>: the id and the
  date may be absent.
\<close>

record SaveData =
  d_id :: "string option"
  d_cardId :: string
  d_merchant :: string
  d_amount :: real
  d_date :: "string option"
  d_category :: Category

text \<open>The object spread \<^verbatim>\<open>{ ...tx, ...data }\<close>: every field present in the data wins.\<close>

definition spread :: "Transaction \<Rightarrow> SaveData \<Rightarrow> Transaction" where
  "spread tx data =
     \<lparr>id_tx = (case d_id data of None \<Rightarrow> id_tx tx | Some i \<Rightarrow> i),
      cardId = d_cardId data,
      merchant = d_merchant data,
      amount = d_amount data,
      date = (case d_date data of None \<Rightarrow> date tx | Some d \<Rightarrow> d),
      category = d_category data\<rparr>"

text \<open>\<^verbatim>\<open>if (data.id)\<close>: an absent id and the empty string are both falsy.\<close>

definition truthy :: "string option \<Rightarrow> bool" where
  "truthy v = (case v of None \<Rightarrow> False | Some s \<Rightarrow> s \<noteq> [])"

definition handleSaveTransaction :: "Env \<Rightarrow> SaveData \<Rightarrow> App \<Rightarrow> App" where
  "handleSaveTransaction env data app =
     (if truthy (d_id data)
      then app\<lparr>transactions_of :=
                 setStored
                   (\<lambda>prev. map (\<lambda>tx. if Some (id_tx tx) = d_id data then spread tx data else tx)
                             prev)
                   (transactions_of app),
               successMessage := Some (''Updated transaction for '' @ d_merchant data @ ''.'')\<rparr>
      else
        (let newTransaction =
               \<lparr>id_tx = ''tx-'' @ showNat (dateNow env),
                cardId = d_cardId data,
                merchant = d_merchant data,
                amount = d_amount data,
                date = toISOString env,
                category = d_category data\<rparr>;
             cardName =
               (case find (\<lambda>c. id_card c = d_cardId data) (cards_of app) of
                  None \<Rightarrow> ''card''
                | Some c \<Rightarrow> if name c = [] then ''card'' else name c)
         in app\<lparr>transactions_of :=
                   setStored (\<lambda>prev. prev @ [newTransaction]) (transactions_of app),
                 successMessage :=
                   Some (''Added $'' @ toFixed2 env (d_amount data) @ '' expense to ''
                         @ cardName @ ''.'')\<rparr>))"

section \<open>SMS ingestion (App.tsx)\<close>

text \<open>
  \<^verbatim>\<open>handleParseSms\<close> is an async function with one \<^verbatim>\<open>await\<close>. The part before the
  call of the classification service either returns early with an error (\<open>Inl\<close>) or
  reaches the call (\<open>Inr\<close>); the part after it receives what \<^verbatim>\<open>parseSmsExpense\<close>
  resolved to: a structurally valid result or \<^verbatim>\<open>null\<close>. The service itself is
  external: its answer is an input.
\<close>

definition handleParseSms_begin :: "Env \<Rightarrow> App \<Rightarrow> App + App" where
  "handleParseSms_begin env app =
     (if trim env (smsInput app) = [] then Inl (app\<lparr>error := Some ''SMS message cannot be empty.''\<rparr>)
      else if length (cards_of app) = 0
      then Inl (app\<lparr>error := Some ''Please add a credit card first.''\<rparr>)
      else Inr (app\<lparr>isLoading := True, error := None, successMessage := None\<rparr>))"

definition handleParseSms_resume :: "Env \<Rightarrow> ParsedSmsData option \<Rightarrow> App \<Rightarrow> App" where
  "handleParseSms_resume env result app0 =
     (let app = app0\<lparr>isLoading := False\<rparr> in
      case result of
        Some r \<Rightarrow>
          (case find (\<lambda>c. last4 c = cardLast4 r) (cards_of app) of
             Some matchingCard \<Rightarrow>
               (handleSaveTransaction env
                  \<lparr>d_id = None, d_cardId = id_card matchingCard, d_merchant = sms_merchant r,
                   d_amount = sms_amount r, d_date = None,
                   d_category = (case sms_category r of None \<Rightarrow> Other | Some c \<Rightarrow> c)\<rparr>
                  app)\<lparr>smsInput := []\<rparr>
           | None \<Rightarrow>
               app\<lparr>error := Some (''Could not find a card ending in '' @ cardLast4 r @ ''.'')\<rparr>)
      | None \<Rightarrow>
          app\<lparr>error := Some ''Failed to parse SMS. Please try a different format.''\<rparr>)"

definition handleParseSms :: "Env \<Rightarrow> (string \<Rightarrow> ParsedSmsData option) \<Rightarrow> App \<Rightarrow> App" where
  "handleParseSms env parseSmsExpense app =
     (case handleParseSms_begin env app of
        Inl early \<Rightarrow> early
      | Inr waiting \<Rightarrow> handleParseSms_resume env (parseSmsExpense (smsInput app)) waiting)"

section \<open>Notifier (App.tsx)\<close>

text \<open>
  \<^verbatim>\<open>card.limit > 0 ? (spent / card.limit) * 100 : 0\<close>, where \<open>spent\<close> is
  \<^verbatim>\<open>cardExpenses.get(card.id) || 0\<close>.
\<close>

definition spendPercentage :: "Card \<Rightarrow> real \<Rightarrow> number" where
  "spendPercentage c spent =
     (if gt0 (limit c) then times_num (div_num spent (limit c)) 100 else Num 0)"

definition thresholds :: "nat list" where
  "thresholds = [30, 50, 85]"

definition notificationKey :: "Env \<Rightarrow> Card \<Rightarrow> nat \<Rightarrow> string" where
  "notificationKey env c threshold =
     id_card c @ ''-'' @ showInt (currentYear env) @ ''-'' @ showNat (currentMonth env)
     @ ''-'' @ showNat threshold"

text \<open>
  \<^verbatim>\<open>Math.round\<close> rounds to the nearest integer, halves upwards.
  \<^verbatim>\<open>String.prototype.repeat\<close> throws a \<^verbatim>\<open>RangeError\<close> for a negative (or infinite)
  count; this is the one exception of the Notifier, and the model carries it as a value.
\<close>

datatype jsError = RangeError

definition mathRound :: "real \<Rightarrow> int" where
  "mathRound x = \<lfloor>x + 1 / 2\<rfloor>"

definition repeat :: "string \<Rightarrow> int \<Rightarrow> jsError + string" where
  "repeat s count = (if count < 0 then Inl RangeError else Inr (concat (replicate (nat count) s)))"

text \<open>The characters U+2588 (full block) and U+2591 (light shade), in UTF-8.\<close>

definition fullBlock :: string where
  "fullBlock = [CHR 0xE2, CHR 0x96, CHR 0x88]"

definition lightShade :: string where
  "lightShade = [CHR 0xE2, CHR 0x96, CHR 0x91]"

text \<open>
  \<^verbatim>\<open>createProgressBar\<close>. The template literal evaluates the two \<^verbatim>\<open>repeat\<close> calls from
  left to right, then \<^verbatim>\<open>toFixed(1)\<close>. For \<^verbatim>\<open>NaN\<close> both counts are \<^verbatim>\<open>NaN\<close>, which
  \<^verbatim>\<open>repeat\<close> reads as 0; an infinite count throws.
\<close>

definition createProgressBar :: "Env \<Rightarrow> number \<Rightarrow> jsError + string" where
  "createProgressBar env pct =
     (case pct of
        Num p \<Rightarrow>
          (let filledBlocks = mathRound ((p / 100) * 10);
               emptyBlocks = 10 - filledBlocks
           in case repeat fullBlock filledBlocks of
                Inl e \<Rightarrow> Inl e
              | Inr filledBar \<Rightarrow>
                  (case repeat lightShade emptyBlocks of
                     Inl e \<Rightarrow> Inl e
                   | Inr emptyBar \<Rightarrow>
                       Inr (''['' @ filledBar @ emptyBar @ ''] '' @ toFixed1 env pct
                            @ ''% Used'')))
      | NaN \<Rightarrow> Inr (''[] '' @ toFixed1 env pct @ ''% Used'')
      | PosInf \<Rightarrow> Inl RangeError
      | NegInf \<Rightarrow> Inl RangeError)"

text \<open>
  \<^verbatim>\<open>sendSpendingNotification\<close> (the parameter \<^verbatim>\<open>percentage\<close> is \<open>pct\<close> here and
  below): the progress bar is built first, then the
  \<^verbatim>\<open>Notification\<close> is made with its title and body. When the bar throws, no
  notification is made.
\<close>

record Notification =
  title :: string
  body :: string

definition sendSpendingNotification :: "Env \<Rightarrow> Card \<Rightarrow> number \<Rightarrow> jsError + Notification" where
  "sendSpendingNotification env c pct =
     (case createProgressBar env pct of
        Inl e \<Rightarrow> Inl e
      | Inr progressBar \<Rightarrow>
          Inr \<lparr>title = ''Spending Alert: '' @ name c,
               body = ''You'' @ [CHR 0x27] @ ''ve used '' @ toFixed1 env pct
                      @ ''% of your limit.'' @ [CHR 0x0A] @ progressBar\<rparr>)"

text \<open>A notification that was sent, with the card, the percentage and the key of the
  loop iteration that sent it.\<close>

record Alert =
  alert_key :: string
  alert_card :: Card
  alert_percentage :: number
  alert_notification :: Notification

text \<open>
  The state of one run of the effect: the notifications sent so far, the
  sent-notification store as updated so far, and the exception that has left the loops,
  if any. The store is an object used as a map from key to flag.
\<close>

record Run =
  alerts :: "Alert list"
  stored :: "string \<rightharpoonup> bool"
  thrown :: "jsError option"

text \<open>
  The body of the inner loop. The condition reads the store as it was when the effect
  started (\<open>sent\<close>). \<^verbatim>\<open>sendSpendingNotification\<close> comes first: when it throws, the
  exception leaves both \<^verbatim>\<open>forEach\<close> loops and the effect, so
  \<^verbatim>\<open>setSentNotifications\<close> is not reached and no later iteration runs. Otherwise
  \<^verbatim>\<open>setSentNotifications(prev => ({ ...prev, [key]: true }))\<close> updates the store, which
  the next run of the effect reads.
\<close>

definition thresholdStep ::
  "Env \<Rightarrow> (string \<rightharpoonup> bool) \<Rightarrow> Card \<Rightarrow> number \<Rightarrow> Run \<Rightarrow> nat \<Rightarrow> Run" where
  "thresholdStep env sent c pct run threshold =
     (if thrown run \<noteq> None then run
      else
        (let notificationKey = notificationKey env c threshold in
         if ge_num pct (real threshold) \<and> sent notificationKey \<noteq> Some True
         then (case sendSpendingNotification env c pct of
                 Inl e \<Rightarrow> run\<lparr>thrown := Some e\<rparr>
               | Inr notification \<Rightarrow>
                   run\<lparr>alerts := alerts run @
                          [\<lparr>alert_key = notificationKey, alert_card = c,
                            alert_percentage = pct,
                            alert_notification = notification\<rparr>],
                       stored := setStored (\<lambda>prev. prev(notificationKey \<mapsto> True))
                                   (stored run)\<rparr>)
         else run))"

definition cardStep ::
  "Env \<Rightarrow> (string \<times> real) list \<Rightarrow> (string \<rightharpoonup> bool) \<Rightarrow> Run \<Rightarrow> Card \<Rightarrow> Run" where
  "cardStep env expenses sent run c =
     (let spent = orZero (map_of expenses (id_card c));
          pct = spendPercentage c spent
      in foldl (thresholdStep env sent c pct) run thresholds)"

definition spendingNotifications ::
  "Env \<Rightarrow> string \<Rightarrow> Card list \<Rightarrow> (string \<times> real) list \<Rightarrow> (string \<rightharpoonup> bool) \<Rightarrow> Run" where
  "spendingNotifications env notificationPermission cards expenses sent =
     (if notificationPermission \<noteq> ''granted''
      then \<lparr>alerts = [], stored = sent, thrown = None\<rparr>
      else foldl (cardStep env expenses sent) \<lparr>alerts = [], stored = sent, thrown = None\<rparr> cards)"

section \<open>Card editor (AddCardModal)\<close>

definition gradients :: "string list" where
  "gradients =
     [''from-blue-400 to-purple-500'', ''from-green-400 to-blue-500'',
      ''from-pink-500 to-orange-400'', ''from-indigo-500 to-purple-600'',
      ''from-teal-400 to-cyan-500'', ''from-rose-400 to-pink-500'']"

text \<open>
  The test \<^verbatim>\<open>/^\d{4}$/.test(last4)\<close>, read as the regular expression is written: from
  the start of the string consume one digit four times, then require the end of the
  string (without the \<^verbatim>\<open>m\<close> flag, \<^verbatim>\<open>$\<close> matches only there).
\<close>

fun matchDigits :: "nat \<Rightarrow> string \<Rightarrow> string option" where
  "matchDigits 0 s = Some s"
| "matchDigits (Suc n) [] = None"
| "matchDigits (Suc n) (c # cs) = (if isDigit c then matchDigits n cs else None)"

definition last4Test :: "string \<Rightarrow> bool" where
  "last4Test s = (matchDigits 4 s = Some [])"

text \<open>\<^verbatim>\<open>card.id !== cardToEdit?.id\<close>: with no card being edited the right-hand side is
  \<^verbatim>\<open>undefined\<close>, which no id equals.\<close>

definition otherThan :: "Card option \<Rightarrow> Card \<Rightarrow> bool" where
  "otherThan cardToEdit c = (case cardToEdit of None \<Rightarrow> True | Some e \<Rightarrow> id_card c \<noteq> id_card e)"

text \<open>
  \<^verbatim>\<open>handleSubmit\<close> of the card editor, on the form state (name, last4, limit).
  \<open>Inl\<close> is \<^verbatim>\<open>setError(message); return\<close>: nothing is saved. \<open>Inr\<close> is the card
  handed to \<^verbatim>\<open>onSaveCard\<close>.
\<close>

definition handleSubmit ::
  "Env \<Rightarrow> Card option \<Rightarrow> Card list \<Rightarrow> string \<Rightarrow> string \<Rightarrow> string \<Rightarrow> string + Card" where
  "handleSubmit env cardToEdit cards nameInput last4Input limitInput =
     (let trimmedName = trim env nameInput in
      if trimmedName = [] \<or> last4Input = [] \<or> limitInput = []
      then Inl ''All fields are required.''
      else if \<not> last4Test last4Input
      then Inl ''Last 4 digits must be exactly 4 numbers.''
      else if le0 (parseFloat env limitInput)
      then Inl ''Limit must be a positive number.''
      else if list_ex
                (\<lambda>c. otherThan cardToEdit c \<and>
                     toLowerCase env (trim env (name c)) = toLowerCase env trimmedName) cards
      then Inl ''A card with this name already exists.''
      else if list_ex (\<lambda>c. otherThan cardToEdit c \<and> last4 c = last4Input) cards
      then Inl ''A card with these last 4 digits already exists.''
      else Inr
        \<lparr>id_card = (case cardToEdit of
                      Some e \<Rightarrow> id_card e
                    | None \<Rightarrow> ''card-'' @ showNat (dateNow env)),
         name = trimmedName,
         last4 = last4Input,
         limit = parseFloat env limitInput,
         gradient = (case cardToEdit of
                       Some e \<Rightarrow> gradient e
                     | None \<Rightarrow>
                         gradients ! nat \<lfloor>random env * real (length gradients)\<rfloor>)\<rparr>)"

text \<open>The card list after a submission: \<^verbatim>\<open>onSaveCard\<close> is \<^verbatim>\<open>handleSaveCard\<close>.\<close>

definition submitCard ::
  "Env \<Rightarrow> Card option \<Rightarrow> Card list \<Rightarrow> string \<Rightarrow> string \<Rightarrow> string \<Rightarrow> Card list" where
  "submitCard env cardToEdit cards nameInput last4Input limitInput =
     (case handleSubmit env cardToEdit cards nameInput last4Input limitInput of
        Inl message \<Rightarrow> cards
      | Inr cardData \<Rightarrow> handleSaveCard cards cardData)"

section \<open>The quantity that claim C1 speaks of\<close>

text \<open>
  The sum as the specification words it, to be compared with what the loop of the
  aggregator computes: the sum of the amounts of the transactions of the current month
  on one card.
\<close>

definition cardSum :: "Env \<Rightarrow> Transaction list \<Rightarrow> string \<Rightarrow> real" where
  "cardSum env txs k =
     sum_list (map amount (filter (\<lambda>tx. cardId tx = k \<and> inCurrentMonth env tx) txs))"

section \<open>An environment for the closed instances\<close>

text \<open>
  2 November 2026, 10:00 UTC, with UTC as the local time zone. The function fields agree
  with the built-ins on the arguments the instances below use: date strings that start
  with \<^verbatim>\<open>2026-11\<close> or \<^verbatim>\<open>2026-10\<close>, the limit strings \<^verbatim>\<open>5000\<close> and \<^verbatim>\<open>0\<close>, the
  amount 25, the percentage 32, and ASCII text for \<^verbatim>\<open>trim\<close> and
  \<^verbatim>\<open>toLowerCase\<close>.
\<close>

definition exampleEnv :: Env where
  "exampleEnv =
     \<lparr>currentMonth = 10,
      currentYear = 2026,
      getMonth = (\<lambda>s. if take 7 s = ''2026-11'' then Some 10
                       else if take 7 s = ''2026-10'' then Some 9 else None),
      getFullYear = (\<lambda>s. if take 5 s = ''2026-'' then Some 2026 else None),
      dateNow = 1793613600000,
      toISOString = ''2026-11-02T10:00:00.000Z'',
      parseFloat = (\<lambda>s. if s = ''5000'' then Num 5000 else if s = ''0'' then Num 0 else NaN),
      random = 1 / 2,
      toFixed1 = (\<lambda>x. if x = Num 32 then ''32.0'' else ''0.0''),
      toFixed2 = (\<lambda>r. if r = 25 then ''25.00'' else ''0.00''),
      trim = asciiTrim,
      toLowerCase = asciiToLowerCase\<rparr>"

text \<open>A card, a transaction of October 2026 on it, and an application state.\<close>

definition visa :: Card where
  "visa =
     \<lparr>id_card = ''card-1'', name = ''Visa'', last4 = ''1234'', limit = Num 1000,
      gradient = ''from-blue-400 to-purple-500''\<rparr>"

definition hotelTx :: Transaction where
  "hotelTx =
     \<lparr>id_tx = ''tx-1'', cardId = ''card-1'', merchant = ''Hotel'', amount = 99,
      date = ''2026-10-12T18:00:00.000Z'', category = Travel\<rparr>"

definition exampleApp :: App where
  "exampleApp =
     \<lparr>cards_of = [visa], transactions_of = [hotelTx],
      smsInput = ''Spent 25 at Cafe with card 9999'', isLoading = False, error = None,
      successMessage = None\<rparr>"

section \<open>An invariant of the Notifier\<close>

text \<open>
  What holds of a run of the effect at every point of its loops, relative to the store
  \<open>sent\<close> that the run read: every notification sent so far has a key that was not
  recorded in \<open>sent\<close> and is recorded now, and every key recorded in \<open>sent\<close> is still
  recorded.
\<close>

definition fresh :: "(string \<rightharpoonup> bool) \<Rightarrow> Run \<Rightarrow> bool" where
  "fresh sent run =
     ((\<forall>a \<in> set (alerts run).
         sent (alert_key a) \<noteq> Some True \<and> stored run (alert_key a) = Some True) \<and>
      (\<forall>k. sent k = Some True \<longrightarrow> stored run k = Some True))"

section \<open>Saving a card\<close>

lemma findIndex_range: "-1 \<le> findIndex p xs \<and> findIndex p xs < int (length xs)"
  by (induction xs) (auto simp: Let_def)

lemma findIndex_none: "(findIndex p xs = -1) = (\<forall>x \<in> set xs. \<not> p x)"
proof (induction xs)
  case Nil
  show ?case by simp
next
  case (Cons x xs)
  have "-1 \<le> findIndex p xs" using findIndex_range [of p xs] by simp
  with Cons show ?case by (auto simp: Let_def)
qed

lemma findIndex_first:
  "0 \<le> findIndex p xs \<Longrightarrow>
     p (xs ! nat (findIndex p xs)) \<and> (\<forall>j < nat (findIndex p xs). \<not> p (xs ! j))"
proof (induction xs)
  case Nil
  then show ?case by simp
next
  case (Cons x xs)
  show ?case
  proof (cases "p x")
    case True
    then show ?thesis by simp
  next
    case False
    with Cons.prems have pos: "0 \<le> findIndex p xs"
      by (auto simp: Let_def split: if_splits)
    then have eq: "findIndex p (x # xs) = findIndex p xs + 1"
      using False by (simp add: Let_def)
    have n: "nat (findIndex p xs + 1) = Suc (nat (findIndex p xs))"
      using pos by simp
    from Cons.IH [OF pos] False show ?thesis
      unfolding eq n by (auto simp: less_Suc_eq_0_disj)
  qed
qed

text \<open>
  Claim C10. Saving a card upserts by id. If some card of the list has the saved id, the
  saved card replaces the first such card at its position: the length is unchanged, the
  card at that position is the saved one, and every other position holds the card it
  held before. If no card has the saved id, the result is the old list with the saved
  card appended, one element longer.
\<close>

theorem handleSaveCard_upsert:
  "((\<exists>c \<in> set cards. id_card c = id_card newCard) \<longrightarrow>
      (\<exists>i < length cards.
         id_card (cards ! i) = id_card newCard \<and>
         length (handleSaveCard cards newCard) = length cards \<and>
         handleSaveCard cards newCard ! i = newCard \<and>
         (\<forall>j < length cards. j \<noteq> i \<longrightarrow> handleSaveCard cards newCard ! j = cards ! j))) \<and>
   ((\<forall>c \<in> set cards. id_card c \<noteq> id_card newCard) \<longrightarrow>
      handleSaveCard cards newCard = cards @ [newCard] \<and>
      length (handleSaveCard cards newCard) = length cards + 1)"
proof (intro conjI impI)
  let ?p = "\<lambda>c. id_card c = id_card newCard"
  let ?k = "findIndex ?p cards"
  assume ex: "\<exists>c \<in> set cards. id_card c = id_card newCard"
  then have "?k \<noteq> -1" using findIndex_none [of ?p cards] by blast
  with findIndex_range [of ?p cards] have pos: "0 \<le> ?k" and lt: "nat ?k < length cards"
    by auto
  have upd: "handleSaveCard cards newCard = cards[nat ?k := newCard]"
    using pos by (simp add: handleSaveCard_def Let_def)
  have hit: "id_card (cards ! nat ?k) = id_card newCard"
    using findIndex_first [OF pos] by simp
  show "\<exists>i < length cards.
         id_card (cards ! i) = id_card newCard \<and>
         length (handleSaveCard cards newCard) = length cards \<and>
         handleSaveCard cards newCard ! i = newCard \<and>
         (\<forall>j < length cards. j \<noteq> i \<longrightarrow> handleSaveCard cards newCard ! j = cards ! j)"
    using lt hit unfolding upd by (intro exI [of _ "nat ?k"]) simp
next
  let ?p = "\<lambda>c. id_card c = id_card newCard"
  assume no: "\<forall>c \<in> set cards. id_card c \<noteq> id_card newCard"
  then have "findIndex ?p cards = -1" using findIndex_none [of ?p cards] by blast
  then show "handleSaveCard cards newCard = cards @ [newCard]"
    by (simp add: handleSaveCard_def)
  then show "length (handleSaveCard cards newCard) = length cards + 1" by simp
qed

theorem handleSaveCard_upsert_witness:
  "length (handleSaveCard
      [\<lparr>id_card = ''card-1'', name = ''Visa'', last4 = ''1234'', limit = Num 1000, gradient = ''g''\<rparr>,
       \<lparr>id_card = ''card-2'', name = ''Amex'', last4 = ''0427'', limit = Num 500, gradient = ''h''\<rparr>]
      \<lparr>id_card = ''card-2'', name = ''Amex Gold'', last4 = ''0427'', limit = Num 800, gradient = ''h''\<rparr>) = 2
   \<and> handleSaveCard
      [\<lparr>id_card = ''card-1'', name = ''Visa'', last4 = ''1234'', limit = Num 1000, gradient = ''g''\<rparr>]
      \<lparr>id_card = ''card-2'', name = ''Amex'', last4 = ''0427'', limit = Num 500, gradient = ''h''\<rparr>
    = [\<lparr>id_card = ''card-1'', name = ''Visa'', last4 = ''1234'', limit = Num 1000, gradient = ''g''\<rparr>,
       \<lparr>id_card = ''card-2'', name = ''Amex'', last4 = ''0427'', limit = Num 500, gradient = ''h''\<rparr>]"
  using handleSaveCard_upsert [of
      "[\<lparr>id_card = ''card-1'', name = ''Visa'', last4 = ''1234'', limit = Num 1000, gradient = ''g''\<rparr>,
        \<lparr>id_card = ''card-2'', name = ''Amex'', last4 = ''0427'', limit = Num 500, gradient = ''h''\<rparr>]"
      "\<lparr>id_card = ''card-2'', name = ''Amex Gold'', last4 = ''0427'', limit = Num 800, gradient = ''h''\<rparr>"]
    handleSaveCard_upsert [of
      "[\<lparr>id_card = ''card-1'', name = ''Visa'', last4 = ''1234'', limit = Num 1000, gradient = ''g''\<rparr>]"
      "\<lparr>id_card = ''card-2'', name = ''Amex'', last4 = ''0427'', limit = Num 500, gradient = ''h''\<rparr>"]
  by auto

section \<open>Monthly card summary\<close>

lemma expenses_init:
  "map_of (foldl (\<lambda>m c. AList.update (id_card c) (0::real) m) m0 cs) k =
     (if k \<in> id_card ` set cs then Some 0 else map_of m0 k)"
  by (induction cs arbitrary: m0) (auto simp: update_conv')

lemma expenses_fold:
  "map_of (foldl (expenseStep env) m txs) k =
     (if \<exists>tx \<in> set txs. cardId tx = k \<and> inCurrentMonth env tx
      then Some (orZero (map_of m k) + cardSum env txs k)
      else map_of m k)"
proof (induction txs arbitrary: m)
  case Nil
  show ?case by simp
next
  case (Cons tx txs)
  show ?case
    unfolding foldl_Cons Cons.IH
    by (auto simp: expenseStep_def cardSum_def update_conv' orZero_def Let_def)
qed

lemma cardSum_none:
  "\<not> (\<exists>tx \<in> set txs. cardId tx = k \<and> inCurrentMonth env tx) \<Longrightarrow> cardSum env txs k = 0"
  by (auto simp: cardSum_def filter_empty_conv)

lemma cardExpenses_lookup:
  "orZero (map_of (cardExpenses env cs txs) k) = cardSum env txs k"
  unfolding cardExpenses_def Let_def expenses_fold expenses_init
  using cardSum_none [of txs k env] by (auto simp: orZero_def)

text \<open>
  Claim C1. For every card of the card list and every transaction list, the entry of the
  monthly card summary under the card's id is the sum of the amounts of the transactions
  that carry this card id and whose date has the current month and the current year
  (\<^const>\<open>cardSum\<close> filters on exactly this, so transactions of other months, years or
  cards add nothing). For any key at all, what a reader of the summary gets with the
  default 0 is that sum.
\<close>

theorem cardExpenses_sum:
  "(k \<in> id_card ` set cs \<longrightarrow> map_of (cardExpenses env cs txs) k = Some (cardSum env txs k)) \<and>
   orZero (map_of (cardExpenses env cs txs) k) = cardSum env txs k"
  unfolding cardExpenses_def Let_def expenses_fold expenses_init
  using cardSum_none [of txs k env] by (auto simp: orZero_def)

theorem cardExpenses_sum_witness:
  "map_of
     (cardExpenses exampleEnv
        [\<lparr>id_card = ''card-1'', name = ''Visa'', last4 = ''1234'', limit = Num 1000, gradient = ''g''\<rparr>]
        [\<lparr>id_tx = ''tx-1'', cardId = ''card-1'', merchant = ''Cafe'', amount = 20,
          date = ''2026-11-01T09:00:00.000Z'', category = Food\<rparr>,
         \<lparr>id_tx = ''tx-2'', cardId = ''card-1'', merchant = ''Fuel stop'', amount = 30,
          date = ''2026-11-02T08:30:00.000Z'', category = Fuel\<rparr>,
         \<lparr>id_tx = ''tx-3'', cardId = ''card-1'', merchant = ''Hotel'', amount = 99,
          date = ''2026-10-12T18:00:00.000Z'', category = Travel\<rparr>,
         \<lparr>id_tx = ''tx-4'', cardId = ''card-2'', merchant = ''Shop'', amount = 7,
          date = ''2026-11-01T12:00:00.000Z'', category = Shopping\<rparr>])
     ''card-1'' = Some 50"
  using cardExpenses_sum [of "''card-1''"
        "[\<lparr>id_card = ''card-1'', name = ''Visa'', last4 = ''1234'', limit = Num 1000, gradient = ''g''\<rparr>]"
        exampleEnv
        "[\<lparr>id_tx = ''tx-1'', cardId = ''card-1'', merchant = ''Cafe'', amount = 20,
          date = ''2026-11-01T09:00:00.000Z'', category = Food\<rparr>,
         \<lparr>id_tx = ''tx-2'', cardId = ''card-1'', merchant = ''Fuel stop'', amount = 30,
          date = ''2026-11-02T08:30:00.000Z'', category = Fuel\<rparr>,
         \<lparr>id_tx = ''tx-3'', cardId = ''card-1'', merchant = ''Hotel'', amount = 99,
          date = ''2026-10-12T18:00:00.000Z'', category = Travel\<rparr>,
         \<lparr>id_tx = ''tx-4'', cardId = ''card-2'', merchant = ''Shop'', amount = 7,
          date = ''2026-11-01T12:00:00.000Z'', category = Shopping\<rparr>]"]
  by (simp add: cardSum_def inCurrentMonth_def exampleEnv_def)

section \<open>Monthly category summary\<close>

text \<open>
  Claim C4 does not hold of the code. The transaction editor rejects an amount that is
  not greater than 0, but the SMS path commits the parsed amount without a check of its
  sign. With one Food transaction of 100 in the month, an SMS result of -50 on Bills for
  an existing card is committed; the summary then has the total 50, drops Bills (its sum
  is not positive) and shows Food alone at 200 percent, so the percentages sum to 200
  and not to 100. Every number of this run is an integer and every operation on it is
  exact in floating-point arithmetic as well.
\<close>

theorem monthlySummary_negative_amount:
  "transactions_of
     (handleParseSms_resume exampleEnv
        (Some \<lparr>sms_merchant = ''Refund'', sms_amount = -50, cardLast4 = ''1234'',
               sms_category = Some Bills\<rparr>)
        (exampleApp\<lparr>transactions_of :=
           [\<lparr>id_tx = ''tx-1'', cardId = ''card-1'', merchant = ''Cafe'', amount = 100,
             date = ''2026-11-01T09:00:00.000Z'', category = Food\<rparr>]\<rparr>)) =
     [\<lparr>id_tx = ''tx-1'', cardId = ''card-1'', merchant = ''Cafe'', amount = 100,
       date = ''2026-11-01T09:00:00.000Z'', category = Food\<rparr>,
      \<lparr>id_tx = ''tx-1793613600000'', cardId = ''card-1'', merchant = ''Refund'', amount = -50,
       date = ''2026-11-02T10:00:00.000Z'', category = Bills\<rparr>] \<and>
   monthlySummary exampleEnv
     [\<lparr>id_tx = ''tx-1'', cardId = ''card-1'', merchant = ''Cafe'', amount = 100,
       date = ''2026-11-01T09:00:00.000Z'', category = Food\<rparr>,
      \<lparr>id_tx = ''tx-1793613600000'', cardId = ''card-1'', merchant = ''Refund'', amount = -50,
       date = ''2026-11-02T10:00:00.000Z'', category = Bills\<rparr>] =
     ([\<lparr>pie_name = Food, pie_value = 100, percentage = 200, color = ''bg-yellow-500''\<rparr>], 50) \<and>
   sum_list (map percentage (pieData (monthlySummary exampleEnv
     [\<lparr>id_tx = ''tx-1'', cardId = ''card-1'', merchant = ''Cafe'', amount = 100,
       date = ''2026-11-01T09:00:00.000Z'', category = Food\<rparr>,
      \<lparr>id_tx = ''tx-1793613600000'', cardId = ''card-1'', merchant = ''Refund'', amount = -50,
       date = ''2026-11-02T10:00:00.000Z'', category = Bills\<rparr>]))) = 200"
proof -
  have commit: "transactions_of
     (handleParseSms_resume exampleEnv
        (Some \<lparr>sms_merchant = ''Refund'', sms_amount = -50, cardLast4 = ''1234'',
               sms_category = Some Bills\<rparr>)
        (exampleApp\<lparr>transactions_of :=
           [\<lparr>id_tx = ''tx-1'', cardId = ''card-1'', merchant = ''Cafe'', amount = 100,
             date = ''2026-11-01T09:00:00.000Z'', category = Food\<rparr>]\<rparr>)) =
     [\<lparr>id_tx = ''tx-1'', cardId = ''card-1'', merchant = ''Cafe'', amount = 100,
       date = ''2026-11-01T09:00:00.000Z'', category = Food\<rparr>,
      \<lparr>id_tx = ''tx-1793613600000'', cardId = ''card-1'', merchant = ''Refund'', amount = -50,
       date = ''2026-11-02T10:00:00.000Z'', category = Bills\<rparr>]"
    by (simp add: handleParseSms_resume_def handleSaveTransaction_def truthy_def setStored_def
        Let_def exampleApp_def visa_def exampleEnv_def showNat.simps digitChar_def)
  have summary: "monthlySummary exampleEnv
     [\<lparr>id_tx = ''tx-1'', cardId = ''card-1'', merchant = ''Cafe'', amount = 100,
       date = ''2026-11-01T09:00:00.000Z'', category = Food\<rparr>,
      \<lparr>id_tx = ''tx-1793613600000'', cardId = ''card-1'', merchant = ''Refund'', amount = -50,
       date = ''2026-11-02T10:00:00.000Z'', category = Bills\<rparr>] =
     ([\<lparr>pie_name = Food, pie_value = 100, percentage = 200, color = ''bg-yellow-500''\<rparr>], 50)"
    by (simp add: monthlySummary_def summaryStep_def Categories_def pieEntry_def orZero_def
        inCurrentMonth_def exampleEnv_def)
  show ?thesis
    unfolding commit summary by (simp add: pieData_def)
qed

section \<open>Spend percentage\<close>

text \<open>
  Claim C9. For every card whose limit is 0 the spend percentage is 0, and so it is for
  every limit that fails the test \<^verbatim>\<open>limit > 0\<close>. For every card and every spend the
  percentage is a finite number: the guard keeps the division from a zero divisor, where
  the unguarded expression \<^verbatim>\<open>(spent / 0) * 100\<close> would be \<^verbatim>\<open>NaN\<close> or infinite.
\<close>

theorem spendPercentage_total:
  "(limit c = Num 0 \<longrightarrow> spendPercentage c spent = Num 0) \<and>
   (\<not> gt0 (limit c) \<longrightarrow> spendPercentage c spent = Num 0) \<and>
   (\<exists>p. spendPercentage c spent = Num p) \<and>
   (\<forall>p. times_num (div_num spent (Num 0)) 100 \<noteq> Num p)"
  by (cases "limit c") (auto simp: spendPercentage_def)

theorem spendPercentage_total_witness:
  "spendPercentage (visa\<lparr>limit := Num 0\<rparr>) 320 = Num 0 \<and> spendPercentage visa 320 = Num 32"
  using spendPercentage_total [of "visa\<lparr>limit := Num 0\<rparr>" 320]
  by (simp add: spendPercentage_def visa_def)

section \<open>Saving a transaction\<close>

lemma handleSaveTransaction_edit:
  "d_id data = Some i \<Longrightarrow> i \<noteq> [] \<Longrightarrow>
   transactions_of (handleSaveTransaction env data app) =
     map (\<lambda>tx. if id_tx tx = i then spread tx data else tx) (transactions_of app)"
  by (simp add: handleSaveTransaction_def truthy_def setStored_def)

text \<open>
  The ids of stored transactions are never empty: a new record gets the id
  \<^verbatim>\<open>`tx-${Date.now()}`\<close>, and an edit keeps the ids.
\<close>

lemma handleSaveTransaction_ids:
  assumes "\<forall>tx \<in> set (transactions_of app). id_tx tx \<noteq> []"
  shows "\<forall>tx \<in> set (transactions_of (handleSaveTransaction env data app)). id_tx tx \<noteq> []"
proof (cases "truthy (d_id data)")
  case True
  then obtain i where i: "d_id data = Some i" "i \<noteq> []"
    by (auto simp: truthy_def split: option.splits)
  show ?thesis
    unfolding handleSaveTransaction_edit [OF i]
    using assms i by (auto simp: spread_def)
next
  case False
  with assms show ?thesis
    by (auto simp: handleSaveTransaction_def setStored_def Let_def)
qed

text \<open>
  Claim C5. The saves that reach \<^verbatim>\<open>handleSaveTransaction\<close> are built at its two call
  sites, the transaction editor (\<^verbatim>\<open>id, cardId, merchant, amount, category\<close>) and the
  SMS path (\<^verbatim>\<open>cardId, merchant, amount, category\<close>): neither carries a date. For every
  list of stored transactions and every such save whose id already occurs in the list,
  the upsert leaves the length of the list unchanged; at every position the id and the
  date are the original ones; the records with another id are unchanged; and the records
  with the saved id take their card, merchant, amount and category from the save.
\<close>

theorem handleSaveTransaction_upsert:
  assumes "d_id data = Some i"
    and "i \<in> id_tx ` set (transactions_of app)"
    and "\<forall>tx \<in> set (transactions_of app). id_tx tx \<noteq> []"
    and "d_date data = None"
  shows "length (transactions_of (handleSaveTransaction env data app)) =
           length (transactions_of app) \<and>
   (\<forall>j < length (transactions_of app).
      id_tx (transactions_of (handleSaveTransaction env data app) ! j) =
        id_tx (transactions_of app ! j) \<and>
      date (transactions_of (handleSaveTransaction env data app) ! j) =
        date (transactions_of app ! j) \<and>
      (id_tx (transactions_of app ! j) \<noteq> i \<longrightarrow>
         transactions_of (handleSaveTransaction env data app) ! j = transactions_of app ! j) \<and>
      (id_tx (transactions_of app ! j) = i \<longrightarrow>
         transactions_of (handleSaveTransaction env data app) ! j =
           (transactions_of app ! j)
             \<lparr>cardId := d_cardId data, merchant := d_merchant data,
              amount := d_amount data, category := d_category data\<rparr>))"
proof -
  from assms(2,3) have ne: "i \<noteq> []" by auto
  show ?thesis
    unfolding handleSaveTransaction_edit [OF assms(1) ne]
    using assms(1,4) by (auto simp: spread_def)
qed

theorem handleSaveTransaction_upsert_witness:
  "transactions_of
      (handleSaveTransaction exampleEnv
         \<lparr>d_id = Some ''tx-1'', d_cardId = ''card-1'', d_merchant = ''Grand Hotel'',
          d_amount = 120, d_date = None, d_category = Travel\<rparr>
         exampleApp) =
     [\<lparr>id_tx = ''tx-1'', cardId = ''card-1'', merchant = ''Grand Hotel'', amount = 120,
       date = ''2026-10-12T18:00:00.000Z'', category = Travel\<rparr>]"
proof -
  let ?data = "\<lparr>d_id = Some ''tx-1'', d_cardId = ''card-1'', d_merchant = ''Grand Hotel'',
          d_amount = 120, d_date = None, d_category = Travel\<rparr>"
  have a: "d_id ?data = Some ''tx-1''" by simp
  have b: "''tx-1'' \<in> id_tx ` set (transactions_of exampleApp)"
    by (simp add: exampleApp_def hotelTx_def)
  have c: "\<forall>tx \<in> set (transactions_of exampleApp). id_tx tx \<noteq> []"
    by (simp add: exampleApp_def hotelTx_def)
  have d: "d_date ?data = None" by simp
  from handleSaveTransaction_upsert [OF a b c d, of exampleEnv]
  have "transactions_of (handleSaveTransaction exampleEnv ?data exampleApp) ! 0 =
          (transactions_of exampleApp ! 0)
             \<lparr>cardId := d_cardId ?data, merchant := d_merchant ?data,
              amount := d_amount ?data, category := d_category ?data\<rparr>
        \<and> length (transactions_of (handleSaveTransaction exampleEnv ?data exampleApp)) = 1"
    by (simp add: exampleApp_def hotelTx_def)
  then show ?thesis
    by (cases "transactions_of (handleSaveTransaction exampleEnv ?data exampleApp)")
       (simp_all add: exampleApp_def hotelTx_def)
qed

section \<open>SMS ingestion\<close>

lemma find_None_last4:
  "(\<forall>c \<in> set cs. last4 c \<noteq> d) \<Longrightarrow> find (\<lambda>c. last4 c = d) cs = None"
  by (simp add: find_None_iff)

text \<open>
  Claim C3. For every result of the SMS parse whose \<^verbatim>\<open>cardLast4\<close> equals the last4 of
  no card of the card list, the continuation of \<^verbatim>\<open>handleParseSms\<close> sets the error
  "Could not find a card ending in" followed by those digits and leaves the transaction
  list as it was. The same holds of the whole handler when the service answers with that
  result: the transactions and the entered text are unchanged, and the error is the
  card-not-found error whenever the service was reached (a non-blank text and a
  non-empty card list).
\<close>

theorem handleParseSms_card_not_found:
  assumes "\<forall>c \<in> set (cards_of app). last4 c \<noteq> cardLast4 r"
  shows "error (handleParseSms_resume env (Some r) app) =
           Some (''Could not find a card ending in '' @ cardLast4 r @ ''.'') \<and>
         transactions_of (handleParseSms_resume env (Some r) app) = transactions_of app \<and>
         (parseSmsExpense (smsInput app) = Some r \<longrightarrow>
            transactions_of (handleParseSms env parseSmsExpense app) = transactions_of app \<and>
            smsInput (handleParseSms env parseSmsExpense app) = smsInput app \<and>
            (trim env (smsInput app) \<noteq> [] \<and> cards_of app \<noteq> [] \<longrightarrow>
               error (handleParseSms env parseSmsExpense app) =
                 Some (''Could not find a card ending in '' @ cardLast4 r @ ''.'')))"
  using find_None_last4 [OF assms]
  by (auto simp: handleParseSms_resume_def handleParseSms_def handleParseSms_begin_def Let_def)

theorem handleParseSms_card_not_found_witness:
  "error (handleParseSms exampleEnv
            (\<lambda>sms. Some \<lparr>sms_merchant = ''Cafe'', sms_amount = 25, cardLast4 = ''9999'',
                          sms_category = Some Food\<rparr>)
            exampleApp) = Some ''Could not find a card ending in 9999.'' \<and>
   transactions_of (handleParseSms exampleEnv
            (\<lambda>sms. Some \<lparr>sms_merchant = ''Cafe'', sms_amount = 25, cardLast4 = ''9999'',
                          sms_category = Some Food\<rparr>)
            exampleApp) = [hotelTx]"
proof -
  let ?r = "\<lparr>sms_merchant = ''Cafe'', sms_amount = 25, cardLast4 = ''9999'',
             sms_category = Some Food\<rparr>"
  have nomatch: "\<forall>c \<in> set (cards_of exampleApp). last4 c \<noteq> cardLast4 ?r"
    by (simp add: exampleApp_def visa_def)
  from handleParseSms_card_not_found [OF nomatch, of exampleEnv "\<lambda>sms. Some ?r"]
  show ?thesis
    by (simp add: exampleApp_def visa_def exampleEnv_def asciiTrim_def isWhiteSpace_def)
qed

text \<open>
  When a card matches, the continuation appends a transaction that carries the parsed
  amount as it is: the SMS path has no check of the amount's sign.
\<close>

lemma handleParseSms_commit:
  assumes "find (\<lambda>c. last4 c = cardLast4 r) (cards_of app) = Some matchingCard"
  shows "transactions_of (handleParseSms_resume env (Some r) app) =
           transactions_of app @
             [\<lparr>id_tx = ''tx-'' @ showNat (dateNow env), cardId = id_card matchingCard,
               merchant = sms_merchant r, amount = sms_amount r, date = toISOString env,
               category = (case sms_category r of None \<Rightarrow> Other | Some c \<Rightarrow> c)\<rparr>]"
  using assms
  by (simp add: handleParseSms_resume_def handleSaveTransaction_def truthy_def setStored_def
      Let_def)

section \<open>Card editor\<close>

lemma matchDigits_Some:
  "(matchDigits n s = Some r) =
     (n \<le> length s \<and> (\<forall>c \<in> set (take n s). isDigit c) \<and> r = drop n s)"
proof (induction n s rule: matchDigits.induct)
  case (1 s)
  show ?case by auto
next
  case (2 n)
  show ?case by simp
next
  case (3 n c cs)
  then show ?case by auto
qed

lemma last4Test_iff: "last4Test s = (length s = 4 \<and> (\<forall>c \<in> set s. isDigit c))"
  unfolding last4Test_def matchDigits_Some by auto

text \<open>What an accepted submission has passed, and what it hands to \<^verbatim>\<open>onSaveCard\<close>.\<close>

lemma handleSubmit_accept:
  "handleSubmit env e cs nm l4 lm = Inr c \<Longrightarrow>
     trim env nm \<noteq> [] \<and> l4 \<noteq> [] \<and> lm \<noteq> [] \<and> last4Test l4 \<and>
     \<not> le0 (parseFloat env lm) \<and>
     \<not> list_ex (\<lambda>c. otherThan e c \<and>
                      toLowerCase env (trim env (name c)) = toLowerCase env (trim env nm)) cs \<and>
     \<not> list_ex (\<lambda>c. otherThan e c \<and> last4 c = l4) cs \<and>
     name c = trim env nm \<and> last4 c = l4 \<and> limit c = parseFloat env lm"
  by (auto simp: handleSubmit_def Let_def split: if_splits)

lemma handleSubmit_reject_last4:
  "\<not> last4Test l4 \<Longrightarrow>
     handleSubmit env e cs nm l4 lm = Inl ''All fields are required.'' \<or>
     handleSubmit env e cs nm l4 lm = Inl ''Last 4 digits must be exactly 4 numbers.''"
  by (simp add: handleSubmit_def Let_def)

text \<open>
  Claim C6. The last4 test of the card editor accepts a string if and only if the
  string has exactly four characters and each is a digit. "123" and "12345" fail the
  test and "0427" passes it. Whatever the other fields are, a submission whose last4
  fails the test is rejected with a validation error (the missing-field error when a
  field is empty, the last4 error otherwise) and the card list stays as it was; every
  card that the editor hands on has a last4 that passed the test.
\<close>

theorem handleSubmit_last4:
  "last4Test s = (length s = 4 \<and> (\<forall>c \<in> set s. isDigit c)) \<and>
   \<not> last4Test ''123'' \<and> \<not> last4Test ''12345'' \<and> last4Test ''0427'' \<and>
   (\<not> last4Test l4 \<longrightarrow>
      (handleSubmit env e cs nm l4 lm = Inl ''All fields are required.'' \<or>
       handleSubmit env e cs nm l4 lm = Inl ''Last 4 digits must be exactly 4 numbers.'') \<and>
      submitCard env e cs nm l4 lm = cs) \<and>
   (\<forall>c. handleSubmit env e cs nm l4 lm = Inr c \<longrightarrow> last4Test l4 \<and> last4 c = l4)"
proof -
  have a: "last4Test s = (length s = 4 \<and> (\<forall>c \<in> set s. isDigit c))" by (rule last4Test_iff)
  have b: "\<not> last4Test ''123'' \<and> \<not> last4Test ''12345'' \<and> last4Test ''0427''"
    by (simp add: last4Test_iff isDigit_def)
  have c: "\<not> last4Test l4 \<longrightarrow>
      (handleSubmit env e cs nm l4 lm = Inl ''All fields are required.'' \<or>
       handleSubmit env e cs nm l4 lm = Inl ''Last 4 digits must be exactly 4 numbers.'') \<and>
      submitCard env e cs nm l4 lm = cs"
    using handleSubmit_reject_last4 [of l4 env e cs nm lm]
    by (auto simp: submitCard_def)
  have d: "\<forall>c. handleSubmit env e cs nm l4 lm = Inr c \<longrightarrow> last4Test l4 \<and> last4 c = l4"
    using handleSubmit_accept [of env e cs nm l4 lm] by blast
  from a b c d show ?thesis by blast
qed

theorem handleSubmit_last4_witness:
  "handleSubmit exampleEnv None [visa] ''Amex'' ''123'' ''5000'' =
     Inl ''Last 4 digits must be exactly 4 numbers.'' \<and>
   submitCard exampleEnv None [visa] ''Amex'' ''123'' ''5000'' = [visa] \<and>
   handleSubmit exampleEnv None [visa] ''Amex'' ''0427'' ''5000'' =
     Inr \<lparr>id_card = ''card-1793613600000'', name = ''Amex'', last4 = ''0427'',
          limit = Num 5000, gradient = ''from-indigo-500 to-purple-600''\<rparr>"
  using handleSubmit_last4 [of "''0427''" "''123''" exampleEnv None "[visa]" "''Amex''" "''5000''"]
  by (simp add: handleSubmit_def submitCard_def Let_def asciiTrim_def isWhiteSpace_def
      last4Test_iff isDigit_def exampleEnv_def visa_def otherThan_def asciiToLowerCase_def
      lowerChar_def showNat.simps digitChar_def gradients_def)

text \<open>
  Claim C7. For every card list and every submission whose trimmed name, lower-cased,
  equals the trimmed and lower-cased name of a card of the list other than the one being
  edited (the comparison the editor makes: case-insensitive, both names trimmed), the
  editor rejects the submission and the card list stays as it was; for a submission that
  is a well-formed card otherwise (all three fields present, a last4 of four digits, a
  limit that is not at most 0) the error is the uniqueness error "A card with this name
  already exists.". When the only cards with a matching name are the record being
  edited, the submission is never rejected with the name error, and it is accepted when
  it is well-formed and its last4 belongs to no other card. The theorem holds for every
  \<^verbatim>\<open>trim\<close> and \<^verbatim>\<open>toLowerCase\<close>.
\<close>

theorem handleSubmit_name_unique:
  "((\<exists>c \<in> set cs. otherThan e c \<and>
        toLowerCase env (trim env (name c)) = toLowerCase env (trim env nm)) \<longrightarrow>
      (\<exists>msg. handleSubmit env e cs nm l4 lm = Inl msg) \<and>
      submitCard env e cs nm l4 lm = cs \<and>
      (trim env nm \<noteq> [] \<and> l4 \<noteq> [] \<and> lm \<noteq> [] \<and> last4Test l4 \<and>
       \<not> le0 (parseFloat env lm) \<longrightarrow>
         handleSubmit env e cs nm l4 lm = Inl ''A card with this name already exists.'')) \<and>
   ((\<forall>c \<in> set cs. toLowerCase env (trim env (name c)) = toLowerCase env (trim env nm) \<longrightarrow>
        \<not> otherThan e c) \<longrightarrow>
      handleSubmit env e cs nm l4 lm \<noteq> Inl ''A card with this name already exists.'' \<and>
      (trim env nm \<noteq> [] \<and> l4 \<noteq> [] \<and> lm \<noteq> [] \<and> last4Test l4 \<and>
       \<not> le0 (parseFloat env lm) \<and> (\<forall>c \<in> set cs. last4 c = l4 \<longrightarrow> \<not> otherThan e c) \<longrightarrow>
         (\<exists>c. handleSubmit env e cs nm l4 lm = Inr c \<and> name c = trim env nm)))"
proof (intro conjI impI)
  assume "\<exists>c \<in> set cs. otherThan e c \<and>
        toLowerCase env (trim env (name c)) = toLowerCase env (trim env nm)"
  then have ex:
    "list_ex (\<lambda>c. otherThan e c \<and>
                toLowerCase env (trim env (name c)) = toLowerCase env (trim env nm)) cs"
    unfolding list_ex_iff by blast
  show rej: "\<exists>msg. handleSubmit env e cs nm l4 lm = Inl msg"
    using ex by (simp add: handleSubmit_def Let_def)
  then show "submitCard env e cs nm l4 lm = cs"
    by (auto simp: submitCard_def)
  assume "trim env nm \<noteq> [] \<and> l4 \<noteq> [] \<and> lm \<noteq> [] \<and> last4Test l4 \<and>
    \<not> le0 (parseFloat env lm)"
  then show "handleSubmit env e cs nm l4 lm = Inl ''A card with this name already exists.''"
    using ex by (simp add: handleSubmit_def Let_def)
next
  assume only: "\<forall>c \<in> set cs.
     toLowerCase env (trim env (name c)) = toLowerCase env (trim env nm) \<longrightarrow> \<not> otherThan e c"
  then have no:
    "\<not> list_ex (\<lambda>c. otherThan e c \<and>
                  toLowerCase env (trim env (name c)) = toLowerCase env (trim env nm)) cs"
    unfolding list_ex_iff by blast
  then show "handleSubmit env e cs nm l4 lm \<noteq> Inl ''A card with this name already exists.''"
    by (simp add: handleSubmit_def Let_def)
  assume wf: "trim env nm \<noteq> [] \<and> l4 \<noteq> [] \<and> lm \<noteq> [] \<and> last4Test l4 \<and>
    \<not> le0 (parseFloat env lm) \<and> (\<forall>c \<in> set cs. last4 c = l4 \<longrightarrow> \<not> otherThan e c)"
  then have "\<not> list_ex (\<lambda>c. otherThan e c \<and> last4 c = l4) cs"
    unfolding list_ex_iff by blast
  with wf no show "\<exists>c. handleSubmit env e cs nm l4 lm = Inr c \<and> name c = trim env nm"
    by (simp add: handleSubmit_def Let_def)
qed

theorem handleSubmit_name_unique_witness:
  "handleSubmit exampleEnv None [visa] ''  VISA '' ''0427'' ''5000'' =
     Inl ''A card with this name already exists.'' \<and>
   submitCard exampleEnv None [visa] ''  VISA '' ''0427'' ''5000'' = [visa] \<and>
   handleSubmit exampleEnv (Some visa) [visa] ''visa'' ''1234'' ''5000'' =
     Inr (visa\<lparr>name := ''visa'', limit := Num 5000\<rparr>)"
  using handleSubmit_name_unique [of "[visa]" None exampleEnv "''  VISA ''" "''0427''" "''5000''"]
    handleSubmit_name_unique [of "[visa]" "Some visa" exampleEnv "''visa''" "''1234''" "''5000''"]
  by (simp add: handleSubmit_def submitCard_def Let_def asciiTrim_def isWhiteSpace_def
      last4Test_iff isDigit_def exampleEnv_def visa_def otherThan_def asciiToLowerCase_def
      lowerChar_def)

text \<open>
  The limit check rejects what parses to a number at most 0. An accepted card has the
  parsed limit, which is greater than 0 or is \<^verbatim>\<open>NaN\<close>: \<^verbatim>\<open>NaN <= 0\<close> is false.
\<close>

lemma handleSubmit_limit:
  "handleSubmit env e cs nm l4 lm = Inr c \<Longrightarrow> gt0 (limit c) \<or> limit c = NaN"
  using handleSubmit_accept [of env e cs nm l4 lm c]
  by (cases "parseFloat env lm") auto

lemma handleSubmit_reject_limit:
  "lm = [] \<or> le0 (parseFloat env lm) \<Longrightarrow>
     handleSubmit env e cs nm l4 lm = Inl ''All fields are required.'' \<or>
     handleSubmit env e cs nm l4 lm = Inl ''Last 4 digits must be exactly 4 numbers.'' \<or>
     handleSubmit env e cs nm l4 lm = Inl ''Limit must be a positive number.''"
  by (auto simp: handleSubmit_def Let_def)

text \<open>
  Claim C8. The limit field is a number input (\<^verbatim>\<open>type="number"\<close>), and the form state
  is written only from that field and from the limit of the card being edited: what
  \<^verbatim>\<open>handleSubmit\<close> reads is the empty string or numeric text, which \<^verbatim>\<open>parseFloat\<close>
  turns into a number. For every such submission, if the limit is empty or does not
  parse to a number greater than 0, the submission is rejected with a validation error
  (the missing-field error, the last4 error, or "Limit must be a positive number.") and
  the card list stays as it was; every card that the editor hands on has the parsed
  limit, and that limit is greater than 0.
\<close>

theorem handleSubmit_limit_positive:
  assumes "lm = [] \<or> parseFloat env lm \<noteq> NaN"
  shows "(lm = [] \<or> \<not> gt0 (parseFloat env lm) \<longrightarrow>
            (handleSubmit env e cs nm l4 lm = Inl ''All fields are required.'' \<or>
             handleSubmit env e cs nm l4 lm = Inl ''Last 4 digits must be exactly 4 numbers.'' \<or>
             handleSubmit env e cs nm l4 lm = Inl ''Limit must be a positive number.'') \<and>
            submitCard env e cs nm l4 lm = cs) \<and>
         (\<forall>c. handleSubmit env e cs nm l4 lm = Inr c \<longrightarrow>
            limit c = parseFloat env lm \<and> gt0 (limit c))"
proof (intro conjI impI allI)
  assume bad: "lm = [] \<or> \<not> gt0 (parseFloat env lm)"
  with assms have "lm = [] \<or> le0 (parseFloat env lm)"
    by (cases "parseFloat env lm") auto
  then show rej:
    "handleSubmit env e cs nm l4 lm = Inl ''All fields are required.'' \<or>
     handleSubmit env e cs nm l4 lm = Inl ''Last 4 digits must be exactly 4 numbers.'' \<or>
     handleSubmit env e cs nm l4 lm = Inl ''Limit must be a positive number.''"
    by (rule handleSubmit_reject_limit)
  then show "submitCard env e cs nm l4 lm = cs"
    by (auto simp: submitCard_def)
next
  fix c
  assume acc: "handleSubmit env e cs nm l4 lm = Inr c"
  from handleSubmit_accept [OF acc] have ne: "lm \<noteq> []" and lim: "limit c = parseFloat env lm"
    by simp_all
  from lim show "limit c = parseFloat env lm" .
  from handleSubmit_limit [OF acc] assms ne lim show "gt0 (limit c)" by auto
qed

theorem handleSubmit_limit_positive_witness:
  "handleSubmit exampleEnv None [visa] ''Amex'' ''0427'' ''0'' =
     Inl ''Limit must be a positive number.'' \<and>
   submitCard exampleEnv None [visa] ''Amex'' ''0427'' ''0'' = [visa] \<and>
   handleSubmit exampleEnv None [visa] ''Amex'' ''0427'' [] = Inl ''All fields are required.'' \<and>
   handleSubmit exampleEnv None [visa] ''Amex'' ''0427'' ''5000'' =
     Inr \<lparr>id_card = ''card-1793613600000'', name = ''Amex'', last4 = ''0427'',
          limit = Num 5000, gradient = ''from-indigo-500 to-purple-600''\<rparr>"
proof -
  have a: "''0'' = [] \<or> parseFloat exampleEnv ''0'' \<noteq> NaN" by (simp add: exampleEnv_def)
  have b: "[] = [] \<or> parseFloat exampleEnv [] \<noteq> NaN" by simp
  have c: "''5000'' = [] \<or> parseFloat exampleEnv ''5000'' \<noteq> NaN" by (simp add: exampleEnv_def)
  from handleSubmit_limit_positive [OF a, of None "[visa]" "''Amex''" "''0427''"]
    handleSubmit_limit_positive [OF b, of None "[visa]" "''Amex''" "''0427''"]
    handleSubmit_limit_positive [OF c, of None "[visa]" "''Amex''" "''0427''"]
  show ?thesis
    by (simp add: handleSubmit_def submitCard_def Let_def asciiTrim_def isWhiteSpace_def
        last4Test_iff isDigit_def exampleEnv_def visa_def otherThan_def asciiToLowerCase_def
        lowerChar_def showNat.simps digitChar_def gradients_def)
qed

section \<open>Notifier\<close>

text \<open>
  The progress bar throws exactly when the rounded tenth of the percentage leaves the
  range 0 to 10: from 105 percent on (and below -5).
\<close>

lemma mathRound_ge: "105 \<le> p \<Longrightarrow> 11 \<le> mathRound ((p / 100) * 10)"
  unfolding mathRound_def by (simp add: le_floor_iff)

lemma mathRound_range:
  "-5 \<le> p \<Longrightarrow> p < 105 \<Longrightarrow>
     0 \<le> mathRound ((p / 100) * 10) \<and> mathRound ((p / 100) * 10) \<le> 10"
  unfolding mathRound_def by (simp add: le_floor_iff floor_le_iff)

lemma createProgressBar_throws:
  "105 \<le> p \<Longrightarrow> createProgressBar env (Num p) = Inl RangeError"
  using mathRound_ge [of p] by (simp add: createProgressBar_def repeat_def Let_def)

lemma createProgressBar_returns:
  "-5 \<le> p \<Longrightarrow> p < 105 \<Longrightarrow> \<exists>bar. createProgressBar env (Num p) = Inr bar"
  using mathRound_range [of p] by (simp add: createProgressBar_def repeat_def Let_def)

text \<open>
  One iteration of the inner loop: a recorded key is skipped; an unrecorded key whose
  threshold is reached gets its notification and is recorded when the percentage is
  below 105, and makes the effect throw from 105 on.
\<close>

lemma thresholdStep_recorded:
  "sent (notificationKey env c t) = Some True \<Longrightarrow> thresholdStep env sent c pct run t = run"
  by (simp add: thresholdStep_def Let_def)

lemma thresholdStep_sends:
  assumes "thrown run = None" and "p < 105" and "real t \<le> p"
    and "sent (notificationKey env c t) \<noteq> Some True"
  shows "\<exists>n. thresholdStep env sent c (Num p) run t =
           run\<lparr>alerts := alerts run @
                  [\<lparr>alert_key = notificationKey env c t, alert_card = c,
                    alert_percentage = Num p, alert_notification = n\<rparr>],
               stored := (stored run)(notificationKey env c t \<mapsto> True)\<rparr>"
proof -
  from assms(3) have "-5 \<le> p" by linarith
  from createProgressBar_returns [OF this assms(2)] obtain bar
    where "createProgressBar env (Num p) = Inr bar" by blast
  then obtain n where n: "sendSpendingNotification env c (Num p) = Inr n"
    by (simp add: sendSpendingNotification_def)
  show ?thesis
    using assms n by (intro exI [of _ n]) (simp add: thresholdStep_def setStored_def Let_def)
qed

lemma thresholdStep_throws:
  assumes "thrown run = None" and "105 \<le> p" and "real t \<le> p"
    and "sent (notificationKey env c t) \<noteq> Some True"
  shows "thresholdStep env sent c (Num p) run t = run\<lparr>thrown := Some RangeError\<rparr>"
  using assms
  by (simp add: thresholdStep_def sendSpendingNotification_def createProgressBar_throws Let_def)

text \<open>
  For a card at 105 percent or more whose key of threshold 30 is not recorded, the
  first iteration throws and the other two are not run: nothing is sent and nothing is
  recorded for this card.
\<close>

lemma cardStep_throws:
  assumes "thrown run = None"
    and "spendPercentage c (orZero (map_of expenses (id_card c))) = Num p" and "105 \<le> p"
    and "sent (notificationKey env c 30) \<noteq> Some True"
  shows "cardStep env expenses sent run c = run\<lparr>thrown := Some RangeError\<rparr>"
proof -
  from assms(3) have "real 30 \<le> p" by simp
  with assms(1,3,4)
  have first: "thresholdStep env sent c (Num p) run 30 = run\<lparr>thrown := Some RangeError\<rparr>"
    by (intro thresholdStep_throws) simp_all
  show ?thesis
    unfolding cardStep_def Let_def assms(2) thresholds_def foldl_Cons foldl_Nil first
    by (simp add: thresholdStep_def)
qed

text \<open>The invariant holds of every run, with or without permission, thrown or not.\<close>

lemma thresholdStep_fresh:
  "fresh sent run \<Longrightarrow> fresh sent (thresholdStep env sent c pct run t)"
  by (auto simp: fresh_def thresholdStep_def setStored_def Let_def split: sum.splits)

lemma foldl_fresh:
  "(\<And>run x. fresh sent run \<Longrightarrow> fresh sent (f run x)) \<Longrightarrow> fresh sent run \<Longrightarrow>
     fresh sent (foldl f run xs)"
  by (induction xs arbitrary: run) auto

lemma spendingNotifications_fresh:
  "fresh sent (spendingNotifications env perm cs expenses sent)"
proof -
  have start: "fresh sent \<lparr>alerts = [], stored = sent, thrown = None\<rparr>"
    by (simp add: fresh_def)
  have step: "fresh sent (cardStep env expenses sent run c)" if "fresh sent run" for run c
    unfolding cardStep_def Let_def
    by (rule foldl_fresh) (auto intro: thresholdStep_fresh that)
  show ?thesis
    unfolding spendingNotifications_def
    using start by (auto intro: foldl_fresh step)
qed

text \<open>
  So a key that is recorded when a run starts gets no notification in that run and
  stays recorded, and every notification of a run has its key recorded for the next run.
\<close>

lemma spendingNotifications_suppressed:
  assumes "sent k = Some True"
  shows "(\<forall>a \<in> set (alerts (spendingNotifications env perm cs expenses sent)). alert_key a \<noteq> k) \<and>
         stored (spendingNotifications env perm cs expenses sent) k = Some True"
  using assms spendingNotifications_fresh [of sent env perm cs expenses]
  by (auto simp: fresh_def)

text \<open>
  The scenario of the specification: limit 1000 and 320 spent. The run sends one
  notification, under the key of threshold 30, and records the key; the run after it,
  with the spend unchanged, sends nothing.
\<close>

lemma spendingNotifications_scenario:
  "map alert_key (alerts (spendingNotifications exampleEnv ''granted'' [visa]
     (cardExpenses exampleEnv [visa]
        [\<lparr>id_tx = ''tx-1'', cardId = ''card-1'', merchant = ''Market'', amount = 320,
          date = ''2026-11-01T09:00:00.000Z'', category = Groceries\<rparr>])
     Map.empty)) = [''card-1-2026-10-30''] \<and>
   stored (spendingNotifications exampleEnv ''granted'' [visa]
     (cardExpenses exampleEnv [visa]
        [\<lparr>id_tx = ''tx-1'', cardId = ''card-1'', merchant = ''Market'', amount = 320,
          date = ''2026-11-01T09:00:00.000Z'', category = Groceries\<rparr>])
     Map.empty) = [''card-1-2026-10-30'' \<mapsto> True] \<and>
   spendingNotifications exampleEnv ''granted'' [visa]
     (cardExpenses exampleEnv [visa]
        [\<lparr>id_tx = ''tx-1'', cardId = ''card-1'', merchant = ''Market'', amount = 320,
          date = ''2026-11-01T09:00:00.000Z'', category = Groceries\<rparr>])
     [''card-1-2026-10-30'' \<mapsto> True] =
   \<lparr>alerts = [], stored = [''card-1-2026-10-30'' \<mapsto> True], thrown = None\<rparr>"
  by (simp add: spendingNotifications_def cardStep_def thresholdStep_def thresholds_def
      sendSpendingNotification_def createProgressBar_def repeat_def mathRound_def
      cardExpenses_def expenseStep_def orZero_def inCurrentMonth_def spendPercentage_def
      notificationKey_def showInt_def showNat.simps digitChar_def setStored_def
      exampleEnv_def visa_def Let_def)

text \<open>
  Claim C2 does not hold of the code. With the permission granted, a limit of 1000, a
  spend of 1500 in the month (150 percent) and no key recorded, all three thresholds
  are reached, so the claim has three notifications sent, once each, and their keys
  recorded. The effect comes to threshold 30, calls \<^verbatim>\<open>sendSpendingNotification\<close>, and
  \<^verbatim>\<open>createProgressBar\<close> throws: the bar has 15 filled blocks and asks \<^verbatim>\<open>repeat\<close> for
  -5 empty ones. No notification is sent and no key is recorded, so every later run
  throws in the same way. The progress bar of the card view clamps the same percentage
  with \<^verbatim>\<open>Math.min(percentage, 100)\<close>; the notification's bar does not.
\<close>

theorem spendingNotifications_throws:
  "spendPercentage visa
     (orZero (map_of
        (cardExpenses exampleEnv [visa]
           [\<lparr>id_tx = ''tx-1'', cardId = ''card-1'', merchant = ''Market'', amount = 1500,
             date = ''2026-11-01T09:00:00.000Z'', category = Groceries\<rparr>])
        (id_card visa))) = Num 150 \<and>
   createProgressBar exampleEnv (Num 150) = Inl RangeError \<and>
   spendingNotifications exampleEnv ''granted'' [visa]
     (cardExpenses exampleEnv [visa]
        [\<lparr>id_tx = ''tx-1'', cardId = ''card-1'', merchant = ''Market'', amount = 1500,
          date = ''2026-11-01T09:00:00.000Z'', category = Groceries\<rparr>])
     Map.empty =
   \<lparr>alerts = [], stored = Map.empty, thrown = Some RangeError\<rparr>"
  by (simp add: spendingNotifications_def cardStep_def thresholdStep_def thresholds_def
      sendSpendingNotification_def createProgressBar_def repeat_def mathRound_def
      cardExpenses_def expenseStep_def orZero_def inCurrentMonth_def spendPercentage_def
      exampleEnv_def visa_def Let_def)

end
